theory Spec2Isabelle
  imports Complex_Main "HOL-Library.Word"
begin

section \<open>JavaScript values\<close>

text \<open>
  The components read the bodies of HTTP responses as untyped values (\<^verbatim>\<open>any\<close>):
  whatever \<^verbatim>\<open>JSON.parse\<close>, \<^verbatim>\<open>response.json()\<close> or axios hand over. A parsed value is
  null, a boolean, a number, a string, an array or an object. An object is kept as the
  list of its properties; \<open>map_of\<close> reads it, so the first pair of a key is the key's
  value. A number is kept by its value, a rational; negative zero is not told apart
  from zero, which no test of truthiness and no comparison below can tell apart either.
\<close>

datatype jv =
    JNull
  | JBool bool
  | JNum rat
  | JStr string
  | JArr "jv list"
  | JObj "(string \<times> jv) list"

text \<open>
  \<^verbatim>\<open>v.k\<close> for a value \<open>v\<close> that is not null and a property name \<open>k\<close> that no
  prototype defines (every name read below is of that kind): \<open>None\<close> is
  \<^verbatim>\<open>undefined\<close>. Reading a property of null throws a TypeError; each caller below
  says what happens to it.
\<close>

fun js_prop :: "jv \<Rightarrow> string \<Rightarrow> jv option" where
  "js_prop (JObj kvs) k = map_of kvs k"
| "js_prop v k = None"

text \<open>Truthiness, as \<^verbatim>\<open>if (v)\<close>, \<^verbatim>\<open>v && w\<close> and \<^verbatim>\<open>v || w\<close> test it.\<close>

fun truthy :: "jv option \<Rightarrow> bool" where
  "truthy None = False"
| "truthy (Some JNull) = False"
| "truthy (Some (JBool b)) = b"
| "truthy (Some (JNum r)) = (r \<noteq> 0)"
| "truthy (Some (JStr s)) = (s \<noteq> [])"
| "truthy (Some (JArr vs)) = True"
| "truthy (Some (JObj kvs)) = True"

text \<open>\<^verbatim>\<open>v || d\<close>: the left operand when it is truthy, the default otherwise.\<close>

fun js_or :: "jv option \<Rightarrow> jv \<Rightarrow> jv" where
  "js_or None d = d"
| "js_or (Some v) d = (if truthy (Some v) then v else d)"

text \<open>\<^verbatim>\<open>v?.k\<close>: undefined when \<open>v\<close> is undefined or null, the property otherwise.\<close>

fun opt_chain :: "jv option \<Rightarrow> string \<Rightarrow> jv option" where
  "opt_chain None k = None"
| "opt_chain (Some JNull) k = None"
| "opt_chain (Some v) k = js_prop v k"

text \<open>
  The numbers that arithmetic produces, which are doubles: a finite value, negative zero,
  NaN or an infinity. Nothing below computes with them; the operators are the platform's.
\<close>

datatype jsnum = Fin rat | NegZero | NaN | PosInf | NegInf

section \<open>The platform\<close>

text \<open>
  Four functions of the browser are used and not defined in the repository; the
  components are modelled over any choice of them.
  \<^item> \<open>TextDecoder_decode\<close>: \<^verbatim>\<open>new TextDecoder().decode(value)\<close>, the text of the bytes of
    one read;
  \<^item> \<open>JSON_parse\<close>: \<^verbatim>\<open>JSON.parse(line)\<close>, \<open>None\<close> when it throws a SyntaxError;
  \<^item> \<open>js_divide\<close>: the operator \<^verbatim>\<open>/\<close> on two values (\<open>None\<close> is \<^verbatim>\<open>undefined\<close>), with
    its conversion of the operands to numbers and the rounding of doubles;
  \<^item> \<open>js_times\<close>: the operator \<^verbatim>\<open>*\<close> on two numbers, with the rounding of doubles.
\<close>

type_synonym uint8array = "8 word list"

record platform =
  TextDecoder_decode :: "uint8array \<Rightarrow> string"
  JSON_parse :: "string \<Rightarrow> jv option"
  js_divide :: "jv option \<Rightarrow> jv option \<Rightarrow> jsnum"
  js_times :: "jsnum \<Rightarrow> jsnum \<Rightarrow> jsnum"

section \<open>Strings\<close>

text \<open>
  Text is a \<open>string\<close>; a character stands for a code unit below 256.
  \<open>split_nl\<close> is \<^verbatim>\<open>s.split('\n')\<close>: the pieces between the newlines, one more than
  there are newlines, so never an empty array.
\<close>

fun split_nl :: "string \<Rightarrow> string list" where
  "split_nl [] = [[]]"
| "split_nl (c # cs) =
     (if c = CHR 0x0A then [] # split_nl cs
      else (case split_nl cs of [] \<Rightarrow> [[c]] | l # ls \<Rightarrow> (c # l) # ls))"

text \<open>
  \<^verbatim>\<open>lines.pop() || ''\<close>: the last element of the array, the empty string when the array
  is empty or that element is the empty string. The array is left without it
  (\<open>butlast\<close>).
\<close>

definition pop_or_empty :: "string list \<Rightarrow> string" where
  "pop_or_empty ls = (if ls = [] then [] else if last ls = [] then [] else last ls)"

text \<open>
  \<^verbatim>\<open>s.trim()\<close> removes white space and line terminators at both ends: tab, line feed,
  vertical tab, form feed, carriage return, space and no-break space among the code
  units below 256.
\<close>

definition is_white :: "char \<Rightarrow> bool" where
  "is_white c = (c \<in> {CHR 0x09, CHR 0x0A, CHR 0x0B, CHR 0x0C, CHR 0x0D, CHR 0x20, CHR 0xA0})"

definition trim :: "string \<Rightarrow> string" where
  "trim s = rev (dropWhile is_white (rev (dropWhile is_white s)))"

section \<open>VideoStreamingDetection: the streaming consumer\<close>

text \<open>The six \<^verbatim>\<open>useState\<close> cells of the component.\<close>

record view_state =
  isProcessing :: bool
  metadata :: "jv option"
  currentFrame :: "jv option"
  allFrames :: "jv list"
  error :: "jv option"
  progress :: jsnum

definition initial_view :: view_state where
  "initial_view =
     \<lparr>isProcessing = False, metadata = None, currentFrame = None, allFrames = [],
      error = None, progress = Fin 0\<rparr>"

text \<open>
  The dispatch on one parsed record: the body of the \<^verbatim>\<open>try\<close> after \<^verbatim>\<open>JSON.parse\<close>.
  \<open>md\<close> is the variable \<^verbatim>\<open>metadata\<close> as the function reads it: the closure of
  \<^verbatim>\<open>startStreamingDetection\<close> holds the value of the state cell in the render that
  created the function, and \<^verbatim>\<open>setMetadata\<close> does not change it. The setters are applied
  to the state in the order of the calls. When \<open>data\<close> is null, \<^verbatim>\<open>data.type\<close> throws and
  the \<^verbatim>\<open>catch\<close> logs it. \<^verbatim>\<open>drawDetections\<close> paints the canvas and sets no state cell; it
  is the last statement of its branch, so an exception thrown inside it changes nothing
  either.
\<close>

definition handle_record :: "platform \<Rightarrow> jv option \<Rightarrow> jv \<Rightarrow> view_state \<Rightarrow> view_state" where
  "handle_record plat md data s =
     (if data = JNull then s
      else if js_prop data ''type'' = Some (JStr ''metadata'') then
        s\<lparr>metadata := Some data\<rparr>
      else if js_prop data ''type'' = Some (JStr ''frame_result'') then
        (let s1 = s\<lparr>currentFrame := Some data\<rparr>;
             s2 = s1\<lparr>allFrames := allFrames s1 @ [data]\<rparr>
         in case md of
              None \<Rightarrow> s2
            | Some m \<Rightarrow>
                if truthy (Some m) then
                  s2\<lparr>progress :=
                    js_times plat
                      (js_divide plat (js_prop data ''frame_number'') (js_prop m ''frame_count''))
                      (Fin 100)\<rparr>
                else s2)
      else if js_prop data ''type'' = Some (JStr ''complete'') then
        s\<lparr>isProcessing := False, progress := Fin 100\<rparr>
      else if truthy (js_prop data ''error'') then
        s\<lparr>error := js_prop data ''error'', isProcessing := False\<rparr>
      else s)"

text \<open>
  The body of \<^verbatim>\<open>for (const line of lines)\<close>: a blank line is passed over, a line that
  \<^verbatim>\<open>JSON.parse\<close> rejects is logged by the \<^verbatim>\<open>catch\<close>, and the loop goes on.
\<close>

definition process_line :: "platform \<Rightarrow> jv option \<Rightarrow> string \<Rightarrow> view_state \<Rightarrow> view_state" where
  "process_line plat md line s =
     (if trim line = [] then s
      else case JSON_parse plat line of
             None \<Rightarrow> s
           | Some data \<Rightarrow> handle_record plat md data s)"

fun for_lines :: "platform \<Rightarrow> jv option \<Rightarrow> string list \<Rightarrow> view_state \<Rightarrow> view_state" where
  "for_lines plat md [] s = s"
| "for_lines plat md (line # rest) s = for_lines plat md rest (process_line plat md line s)"

text \<open>
  \<^verbatim>\<open>processStream\<close>: the \<^verbatim>\<open>while (true)\<close> loop over \<^verbatim>\<open>reader.read()\<close>. The reads of a
  response are the list of the byte arrays it delivers before the reader reports
  \<^verbatim>\<open>done\<close>; the loop ends there.
\<close>

fun processStream_loop ::
  "platform \<Rightarrow> jv option \<Rightarrow> string \<Rightarrow> uint8array list \<Rightarrow> view_state \<Rightarrow> view_state" where
  "processStream_loop plat md buffer [] s = s"
| "processStream_loop plat md buffer (v # rest) s =
     (let chunk = TextDecoder_decode plat v;
          buffer1 = buffer @ chunk;
          lines = split_nl buffer1;
          buffer2 = pop_or_empty lines;
          lines1 = butlast lines
      in processStream_loop plat md buffer2 rest (for_lines plat md lines1 s))"

text \<open>
  What \<^verbatim>\<open>fetch\<close> and the reader do, as the function sees it: \<^verbatim>\<open>fetch\<close> rejects (with the
  message of the exception), the response is not ok (with its status as text), the body
  gives no reader, or the body streams its reads and then ends, by \<^verbatim>\<open>done\<close> or by a read
  that rejects.
\<close>

datatype stream_end = Done | ReadRejects string

datatype fetch_outcome =
    FetchRejects string
  | NotOk string
  | NoReader
  | Streams "uint8array list" stream_end

definition fail_start :: "string \<Rightarrow> view_state \<Rightarrow> view_state" where
  "fail_start msg s =
     s\<lparr>error := Some (JStr (''Failed to start streaming: '' @ msg)), isProcessing := False\<rparr>"

definition startStreamingDetection ::
  "platform \<Rightarrow> jv option \<Rightarrow> fetch_outcome \<Rightarrow> view_state \<Rightarrow> view_state" where
  "startStreamingDetection plat md outcome s =
     (let s0 = s\<lparr>isProcessing := True, error := None, allFrames := [],
                 currentFrame := None, progress := Fin 0\<rparr>
      in case outcome of
           FetchRejects msg \<Rightarrow> fail_start msg s0
         | NotOk status \<Rightarrow> fail_start (''HTTP error! status: '' @ status) s0
         | NoReader \<Rightarrow> fail_start ''Response body reader could not be created'' s0
         | Streams reads fin \<Rightarrow>
             (let s1 = processStream_loop plat md [] reads s0
              in case fin of
                   Done \<Rightarrow> s1
                 | ReadRejects msg \<Rightarrow>
                     s1\<lparr>error := Some (JStr (''Stream processing error: '' @ msg)),
                        isProcessing := False\<rparr>))"

text \<open>
  The two callers. \<^verbatim>\<open>handleCanPlay\<close> is registered by an effect that depends on
  \<^verbatim>\<open>videoId\<close> only; on a component that has just been mounted it calls the function of
  the first render, whose \<^verbatim>\<open>metadata\<close> is the initial null. The button calls the
  function of the render that is on the screen, whose \<^verbatim>\<open>metadata\<close> is the cell's value
  at the click; it is disabled while \<^verbatim>\<open>isProcessing\<close> is true.
\<close>

definition handleCanPlay_mounted :: "platform \<Rightarrow> fetch_outcome \<Rightarrow> view_state \<Rightarrow> view_state" where
  "handleCanPlay_mounted plat outcome s =
     startStreamingDetection plat (metadata initial_view) outcome s"

definition restart_click :: "platform \<Rightarrow> fetch_outcome \<Rightarrow> view_state \<Rightarrow> view_state" where
  "restart_click plat outcome s =
     (if isProcessing s then s else startStreamingDetection plat (metadata s) outcome s)"








text \<open>
  For the statements below. The text of a list of reads is what the loop appends to its
  buffer: each read is decoded on its own, by a decoder made for it, and the pieces are
  joined. The complete lines of a text are those a newline ends. The record of a line is
  what the loop body dispatches for it: none for a blank line and for one that does not
  parse.
\<close>

definition stream_text :: "platform \<Rightarrow> uint8array list \<Rightarrow> string" where
  "stream_text plat reads = concat (map (TextDecoder_decode plat) reads)"

definition complete_lines :: "string \<Rightarrow> string list" where
  "complete_lines s = butlast (split_nl s)"

text \<open>
  The text that a server writes for the lines \<open>ls\<close>, a newline after each, followed by the
  start \<open>rest\<close> of a line it has not ended yet.
\<close>

definition lines_text :: "string list \<Rightarrow> string \<Rightarrow> string" where
  "lines_text ls rest = concat (map (\<lambda>l. l @ [CHR 0x0A]) ls) @ rest"

definition line_record :: "platform \<Rightarrow> string \<Rightarrow> jv option" where
  "line_record plat line = (if trim line = [] then None else JSON_parse plat line)"

definition is_frame_result :: "jv \<Rightarrow> bool" where
  "is_frame_result d = (js_prop d ''type'' = Some (JStr ''frame_result''))"

definition frame_results :: "platform \<Rightarrow> string list \<Rightarrow> jv list" where
  "frame_results plat ls = filter is_frame_result (List.map_filter (line_record plat) ls)"




section \<open>VideoAnalysisPage: the upload handler\<close>

text \<open>
  The state cells that \<^verbatim>\<open>handleFileUpload\<close> writes. \<^verbatim>\<open>videoId\<close> and
  \<^verbatim>\<open>uploadedVideoId\<close> are declared as strings and receive whatever the response
  carries.
\<close>

record upload_state =
  videoId :: jv
  uploadedVideoId :: jv
  isUploading :: bool
  uploadError :: "string option"

text \<open>
  \<^verbatim>\<open>axios.post\<close> rejects (no response, or a status outside 2xx) or resolves with a
  response whose \<^verbatim>\<open>data\<close> is the body, \<open>None\<close> when there is none.
\<close>

datatype axios_outcome = AxiosRejects | AxiosResolves "jv option"

text \<open>
  \<open>file\<close> is \<^verbatim>\<open>event.target.files?.[0]\<close>. Without a file the handler returns at once.
  The \<^verbatim>\<open>finally\<close> block runs on both paths. Inside the test
  \<^verbatim>\<open>response.data && response.data.video_id\<close> the property is read of a truthy value
  only, so the \<open>None\<close> case of the inner \<open>case\<close> is never reached.
\<close>

definition handleFileUpload :: "'f option \<Rightarrow> axios_outcome \<Rightarrow> upload_state \<Rightarrow> upload_state" where
  "handleFileUpload file outcome s =
     (case file of
        None \<Rightarrow> s
      | Some f \<Rightarrow>
          (let s1 = s\<lparr>isUploading := True, uploadError := None\<rparr>;
               s2 = (case outcome of
                       AxiosRejects \<Rightarrow>
                         s1\<lparr>uploadError := Some ''Failed to upload video. Please try again.''\<rparr>
                     | AxiosResolves body \<Rightarrow>
                         if truthy body \<and> truthy (opt_chain body ''video_id'') then
                           (case opt_chain body ''video_id'' of
                              None \<Rightarrow> s1
                            | Some vid \<Rightarrow> s1\<lparr>uploadedVideoId := vid, videoId := vid\<rparr>)
                         else
                           s1\<lparr>uploadError :=
                                Some ''Upload successful but no video ID was returned''\<rparr>)
           in s2\<lparr>isUploading := False\<rparr>))"

section \<open>AIInferencePanel: batch detection\<close>

record bounding_box =
  box_x :: jv
  box_y :: jv
  box_width :: jv
  box_height :: jv

record formatted_detection =
  det_id :: jv
  label :: jv
  confidence :: jv
  boundingBox :: bounding_box
  severity :: jv
  timestamp :: jv
  frame_number :: "jv option"
  fps :: "jv option"

text \<open>
  The function given to \<^verbatim>\<open>result.detections.map\<close>. \<open>rnd\<close> is
  \<^verbatim>\<open>Math.random().toString()\<close> and \<open>now\<close> is \<^verbatim>\<open>new Date().toISOString()\<close> at this
  element. A null element makes \<^verbatim>\<open>detection.id\<close> throw: \<open>None\<close>.
\<close>

definition format_detection :: "string \<Rightarrow> string \<Rightarrow> jv \<Rightarrow> formatted_detection option" where
  "format_detection rnd now detection =
     (if detection = JNull then None
      else Some
        \<lparr>det_id = js_or (js_prop detection ''id'') (JStr rnd),
         label = js_or (js_prop detection ''label'') (JStr ''Unknown''),
         confidence = js_or (js_prop detection ''confidence'') (JNum 0),
         boundingBox =
           \<lparr>box_x = js_or (opt_chain (js_prop detection ''bounding_box'') ''x'') (JNum 0),
            box_y = js_or (opt_chain (js_prop detection ''bounding_box'') ''y'') (JNum 0),
            box_width = js_or (opt_chain (js_prop detection ''bounding_box'') ''width'') (JNum 0),
            box_height = js_or (opt_chain (js_prop detection ''bounding_box'') ''height'') (JNum 0)\<rparr>,
         severity = js_or (js_prop detection ''severity'') (JStr ''medium''),
         timestamp = js_or (js_prop detection ''timestamp'') (JStr now),
         frame_number = js_prop detection ''frame_number'',
         fps = js_prop detection ''fps''\<rparr>)"

text \<open>\<^verbatim>\<open>Array.prototype.map\<close> with that function, from index \<open>i\<close> on: an element that throws ends it.\<close>

fun format_all ::
  "(nat \<Rightarrow> string) \<Rightarrow> (nat \<Rightarrow> string) \<Rightarrow> nat \<Rightarrow> jv list \<Rightarrow> formatted_detection list option" where
  "format_all rnd now i [] = Some []"
| "format_all rnd now i (d # ds) =
     (case format_detection (rnd i) (now i) d of
        None \<Rightarrow> None
      | Some f \<Rightarrow>
          (case format_all rnd now (Suc i) ds of
             None \<Rightarrow> None
           | Some fs \<Rightarrow> Some (f # fs)))"

record panel_state =
  detections :: "formatted_detection list"
  hasProcessedVideo :: bool

text \<open>
  The answer to the POST: \<^verbatim>\<open>fetch\<close> rejects, the response is not ok (with its text,
  \<open>None\<close> when reading it rejects), or it is ok (with the value of
  \<^verbatim>\<open>response.json()\<close>, \<open>None\<close> when that rejects).
\<close>

datatype detect_outcome =
    DetectRejects
  | DetectNotOk "string option"
  | DetectOk "jv option"

definition alert_error :: string where
  "alert_error = ''Error processing video. Please try again or use a different video file.''"

definition alert_none :: string where
  "alert_none = ''No detections found in the video. Please try a different video or adjust the confidence threshold.''"

text \<open>
  \<^verbatim>\<open>processUploadedVideo\<close>: the new state and the message of the blocking
  \<^verbatim>\<open>alert\<close>, if one is shown. A truthy \<^verbatim>\<open>detections\<close> that is not an array has no
  \<^verbatim>\<open>map\<close>: the call throws and the outer \<^verbatim>\<open>catch\<close> shows the alert.
\<close>

definition processUploadedVideo ::
  "(nat \<Rightarrow> string) \<Rightarrow> (nat \<Rightarrow> string) \<Rightarrow> detect_outcome \<Rightarrow> panel_state
     \<Rightarrow> panel_state \<times> string option" where
  "processUploadedVideo rnd now outcome s =
     (case outcome of
        DetectRejects \<Rightarrow> (s, Some alert_error)
      | DetectNotOk None \<Rightarrow> (s, Some alert_error)
      | DetectNotOk (Some errorText) \<Rightarrow> (s, Some (''Failed to process video: '' @ errorText))
      | DetectOk None \<Rightarrow> (s, Some alert_error)
      | DetectOk (Some result) \<Rightarrow>
          if truthy (Some result) \<and> truthy (js_prop result ''detections'') then
            (case js_prop result ''detections'' of
               Some (JArr ds) \<Rightarrow>
                 (case format_all rnd now 0 ds of
                    None \<Rightarrow> (s, Some alert_error)
                  | Some formattedDetections \<Rightarrow>
                      (s\<lparr>detections := formattedDetections, hasProcessedVideo := True\<rparr>, None))
             | _ \<Rightarrow> (s, Some alert_error))
          else (s, Some alert_none))"

section \<open>AlertPanel\<close>

datatype alert_severity = Critical | High | Medium | Low

datatype alert_status = New | Acknowledged | Resolved

fun status_name :: "alert_status \<Rightarrow> string" where
  "status_name New = ''new''"
| "status_name Acknowledged = ''acknowledged''"
| "status_name Resolved = ''resolved''"

record alert =
  alert_id :: string
  title :: string
  description :: string
  alert_timestamp :: int
  alert_severity :: alert_severity
  alert_confidence :: nat
  location :: string
  status :: alert_status
  alert_type :: string

text \<open>
  The properties of the panel are all optional. A callback returns nothing; what it
  does, it does to the state \<open>'w\<close> of whoever passed it.
\<close>

record 'w AlertPanelProps =
  alerts :: "alert list option"
  onAcknowledge :: "(string \<Rightarrow> 'w \<Rightarrow> 'w) option"
  onResolve :: "(string \<Rightarrow> 'w \<Rightarrow> 'w) option"
  onViewDetails :: "(string \<Rightarrow> 'w \<Rightarrow> 'w) option"

text \<open>
  The mock data; \<open>t0\<close> is \<^verbatim>\<open>Date.now()\<close> when the module is loaded, in milliseconds.
\<close>

definition defaultAlerts :: "int \<Rightarrow> alert list" where
  "defaultAlerts t0 =
     [\<lparr>alert_id = ''1'', title = ''Fire Detected'',
       description = ''Potential wildfire detected in sector A-7 with high heat signature.'',
       alert_timestamp = t0 - 1000 * 60 * 5, alert_severity = Critical, alert_confidence = 94,
       location = ''Sector A-7, North Ridge'', status = New, alert_type = ''fire''\<rparr>,
      \<lparr>alert_id = ''2'', title = ''Unauthorized Vehicle'',
       description = ''Unidentified vehicle detected in restricted area near the perimeter fence.'',
       alert_timestamp = t0 - 1000 * 60 * 15, alert_severity = High, alert_confidence = 87,
       location = ''Perimeter Zone B, East Entrance'', status = Acknowledged,
       alert_type = ''intrusion''\<rparr>,
      \<lparr>alert_id = ''3'', title = ''Crowd Formation'',
       description = ''Unusual crowd density detected in public area exceeding safety thresholds.'',
       alert_timestamp = t0 - 1000 * 60 * 30, alert_severity = Medium, alert_confidence = 76,
       location = ''Central Plaza, Main Entrance'', status = New, alert_type = ''crowd''\<rparr>,
      \<lparr>alert_id = ''4'', title = ''Water Level Rising'',
       description = ''Potential flood risk detected with water levels rising in drainage area.'',
       alert_timestamp = t0 - 1000 * 60 * 45, alert_severity = High, alert_confidence = 82,
       location = ''Drainage Basin C, South Sector'', status = New, alert_type = ''flood''\<rparr>,
      \<lparr>alert_id = ''5'', title = ''Smoke Detection'',
       description = ''Smoke signature detected in industrial zone, potential equipment malfunction.'',
       alert_timestamp = t0 - 1000 * 60 * 60, alert_severity = Medium, alert_confidence = 68,
       location = ''Industrial Zone D, Building 7'', status = Resolved, alert_type = ''smoke''\<rparr>,
      \<lparr>alert_id = ''6'', title = ''Structural Anomaly'',
       description = ''Potential structural damage detected on bridge support column.'',
       alert_timestamp = t0 - 1000 * 60 * 90, alert_severity = Low, alert_confidence = 62,
       location = ''North Bridge, Support Column 3'', status = Acknowledged,
       alert_type = ''structural''\<rparr>]"

text \<open>The destructuring of the properties with their defaults.\<close>

definition panel_alerts :: "int \<Rightarrow> 'w AlertPanelProps \<Rightarrow> alert list" where
  "panel_alerts t0 p = (case alerts p of None \<Rightarrow> defaultAlerts t0 | Some as \<Rightarrow> as)"

definition panel_onAcknowledge :: "'w AlertPanelProps \<Rightarrow> string \<Rightarrow> 'w \<Rightarrow> 'w" where
  "panel_onAcknowledge p = (case onAcknowledge p of None \<Rightarrow> (\<lambda>alertId w. w) | Some h \<Rightarrow> h)"

definition panel_onResolve :: "'w AlertPanelProps \<Rightarrow> string \<Rightarrow> 'w \<Rightarrow> 'w" where
  "panel_onResolve p = (case onResolve p of None \<Rightarrow> (\<lambda>alertId w. w) | Some h \<Rightarrow> h)"

definition panel_onViewDetails :: "'w AlertPanelProps \<Rightarrow> string \<Rightarrow> 'w \<Rightarrow> 'w" where
  "panel_onViewDetails p = (case onViewDetails p of None \<Rightarrow> (\<lambda>alertId w. w) | Some h \<Rightarrow> h)"

definition filteredAlerts :: "int \<Rightarrow> 'w AlertPanelProps \<Rightarrow> string \<Rightarrow> alert list" where
  "filteredAlerts t0 p activeTab =
     (if activeTab = ''all'' then panel_alerts t0 p
      else filter (\<lambda>a. status_name (status a) = activeTab) (panel_alerts t0 p))"

text \<open>The buttons that \<^verbatim>\<open>AlertItem\<close> renders for an alert, and what a click on one does.\<close>

datatype alert_button = AcknowledgeButton | ResolveButton | DetailsButton

definition AlertItem_buttons :: "alert \<Rightarrow> alert_button list" where
  "AlertItem_buttons a =
     (if status a = New then [AcknowledgeButton] else []) @
     (if status a = Acknowledged then [ResolveButton] else []) @
     [DetailsButton]"

definition AlertItem_click :: "'w AlertPanelProps \<Rightarrow> alert \<Rightarrow> alert_button \<Rightarrow> 'w \<Rightarrow> 'w" where
  "AlertItem_click p a b w =
     (if b \<in> set (AlertItem_buttons a) then
        (case b of
           AcknowledgeButton \<Rightarrow> panel_onAcknowledge p (alert_id a) w
         | ResolveButton \<Rightarrow> panel_onResolve p (alert_id a) w
         | DetailsButton \<Rightarrow> panel_onViewDetails p (alert_id a) w)
      else w)"

text \<open>
  The panel is a function of the state of the component that renders it: \<open>render\<close> gives
  the properties that component passes. The acknowledge action on an alert is the click
  on its button; afterwards the panel shows the alerts of the properties rendered from
  the new state. The component itself keeps no alert and has no setter for one.
\<close>

definition acknowledge ::
  "int \<Rightarrow> ('w \<Rightarrow> 'w AlertPanelProps) \<Rightarrow> alert \<Rightarrow> 'w \<Rightarrow> alert list \<times> 'w" where
  "acknowledge t0 render a w =
     (let w1 = AlertItem_click (render w) a AcknowledgeButton w
      in (panel_alerts t0 (render w1), w1))"

text \<open>\<^verbatim>\<open>home.tsx\<close> renders \<^verbatim>\<open><AlertPanel />\<close>: no property is passed, whatever its state.\<close>

definition home_AlertPanel :: "'w \<Rightarrow> 'w AlertPanelProps" where
  "home_AlertPanel w =
     \<lparr>alerts = None, onAcknowledge = None, onResolve = None, onViewDetails = None\<rparr>"

section \<open>Inputs for the examples\<close>

text \<open>
  The bytes of a text without a character above 127, and \<^verbatim>\<open>TextDecoder\<close> on such
  bytes.
\<close>

definition ascii_bytes :: "string \<Rightarrow> uint8array" where
  "ascii_bytes s = map (\<lambda>c. of_nat (of_char c)) s"

definition decode_ascii :: "uint8array \<Rightarrow> string" where
  "decode_ascii bs = map (\<lambda>b. char_of (unat b)) bs"

text \<open>
  Six lines of a stream and the values \<^verbatim>\<open>JSON.parse\<close> gives for them, and a line
  that is cut short. On the examples below \<open>parse_example\<close> is \<^verbatim>\<open>JSON.parse\<close>, which
  throws on every other line they contain. No example reaches the arithmetic (none
  reads a frame result with a metadata in its closure), and the platform of the examples
  gives NaN there.
\<close>

definition metadata_line :: string where
  "metadata_line = ''{\"type\":\"metadata\",\"fps\":30,\"frame_count\":100}''"

definition metadata_record :: jv where
  "metadata_record =
     JObj [(''type'', JStr ''metadata''), (''fps'', JNum 30), (''frame_count'', JNum 100)]"

definition frame_line :: string where
  "frame_line = ''{\"type\":\"frame_result\",\"frame_number\":10}''"

definition frame_record :: jv where
  "frame_record = JObj [(''type'', JStr ''frame_result''), (''frame_number'', JNum 10)]"

definition frame_line_11 :: string where
  "frame_line_11 = ''{\"type\":\"frame_result\",\"frame_number\":11}''"

definition frame_record_11 :: jv where
  "frame_record_11 = JObj [(''type'', JStr ''frame_result''), (''frame_number'', JNum 11)]"

definition error_line :: string where
  "error_line = ''{\"error\":\"boom\"}''"

definition error_record :: jv where
  "error_record = JObj [(''error'', JStr ''boom'')]"

definition short_metadata_line :: string where
  "short_metadata_line = ''{\"type\":\"metadata\",\"fps\":30}''"

definition short_metadata_record :: jv where
  "short_metadata_record = JObj [(''type'', JStr ''metadata''), (''fps'', JNum 30)]"

definition complete_line :: string where
  "complete_line = ''{\"type\":\"complete\"}''"

definition complete_record :: jv where
  "complete_record = JObj [(''type'', JStr ''complete'')]"

definition broken_line :: string where
  "broken_line = ''{\"type\":\"frame_res''"

definition parse_example :: "string \<Rightarrow> jv option" where
  "parse_example line =
     (if line = metadata_line then Some metadata_record
      else if line = frame_line then Some frame_record
      else if line = error_line then Some error_record
      else if line = short_metadata_line then Some short_metadata_record
      else if line = complete_line then Some complete_record
      else if line = frame_line_11 then Some frame_record_11
      else None)"

definition example_platform :: platform where
  "example_platform =
     \<lparr>TextDecoder_decode = decode_ascii, JSON_parse = parse_example,
      js_divide = (\<lambda>a b. NaN), js_times = (\<lambda>a b. NaN)\<rparr>"

section \<open>Reassembly of lines\<close>

lemma split_nl_not_Nil: "split_nl s \<noteq> []"
  by (induction s) (auto split: list.splits)

lemma split_nl_append:
  "split_nl (a @ b) = butlast (split_nl a) @ split_nl (last (split_nl a) @ b)"
proof (induction a)
  case Nil
  show ?case by simp
next
  case (Cons c cs)
  obtain l ls where sp: "split_nl cs = ls @ [l]"
    using split_nl_not_Nil [of cs] by (metis append_butlast_last_id)
  show ?case
  proof (cases "c = CHR 0x0A")
    case True
    with Cons show ?thesis by (simp add: split_nl_not_Nil)
  next
    case False
    show ?thesis
    proof (cases ls)
      case Nil
      with sp False Cons show ?thesis by (simp split: list.splits)
    next
      case (Cons l0 ls0)
      with sp False Cons.IH show ?thesis by (simp split: list.splits)
    qed
  qed
qed

lemma pop_or_empty_last: "pop_or_empty (split_nl s) = last (split_nl s)"
  by (simp add: pop_or_empty_def split_nl_not_Nil)

lemma for_lines_append:
  "for_lines plat md (xs @ ys) s = for_lines plat md ys (for_lines plat md xs s)"
  by (induction xs arbitrary: s) auto

lemma complete_lines_append:
  "complete_lines (a @ b) = complete_lines a @ complete_lines (last (split_nl a) @ b)"
  unfolding complete_lines_def
  by (simp add: split_nl_append [of a b] butlast_append split_nl_not_Nil)

lemma complete_lines_last: "complete_lines (last (split_nl a)) = []"
  using complete_lines_append [of a "[]"] by simp

lemma processStream_loop_lines:
  "complete_lines buffer = [] \<Longrightarrow>
   processStream_loop plat md buffer reads s =
     for_lines plat md (complete_lines (buffer @ stream_text plat reads)) s"
proof (induction reads arbitrary: buffer s)
  case Nil
  then show ?case
    by (simp add: stream_text_def)
next
  case (Cons v rest)
  let ?chunk = "TextDecoder_decode plat v"
  have step: "processStream_loop plat md buffer (v # rest) s =
      processStream_loop plat md (last (split_nl (buffer @ ?chunk))) rest
        (for_lines plat md (complete_lines (buffer @ ?chunk)) s)"
    by (simp add: Let_def pop_or_empty_last complete_lines_def)
  have cat_eq: "buffer @ stream_text plat (v # rest) = (buffer @ ?chunk) @ stream_text plat rest"
    by (simp add: stream_text_def)
  show ?case
    unfolding step cat_eq complete_lines_append [of "buffer @ ?chunk"]
    by (simp add: Cons.IH [OF complete_lines_last] for_lines_append)
qed

lemma processStream_loop_start:
  "processStream_loop plat md [] reads s =
     for_lines plat md (complete_lines (stream_text plat reads)) s"
  using processStream_loop_lines [of "[]" plat md reads s]
  by (simp add: complete_lines_def)

lemma process_line_record:
  "process_line plat md l s =
     (case line_record plat l of None \<Rightarrow> s | Some d \<Rightarrow> handle_record plat md d s)"
  by (simp add: process_line_def line_record_def)

lemma handle_record_allFrames:
  "allFrames (handle_record plat md d s) =
     (if is_frame_result d then allFrames s @ [d] else allFrames s)"
  by (cases d) (auto simp: handle_record_def is_frame_result_def Let_def split: option.splits)





lemma frame_results_Cons:
  "frame_results plat (l # ls) =
     (case line_record plat l of
        None \<Rightarrow> frame_results plat ls
      | Some d \<Rightarrow> if is_frame_result d then d # frame_results plat ls else frame_results plat ls)"
  by (simp add: frame_results_def split: option.splits)


lemma for_lines_allFrames:
  "allFrames (for_lines plat md ls s) = allFrames s @ frame_results plat ls"
proof (induction ls arbitrary: s)
  case Nil
  show ?case by (simp add: frame_results_def)
next
  case (Cons l ls)
  show ?case
    by (simp add: Cons.IH process_line_record frame_results_Cons handle_record_allFrames
          split: option.splits)
qed




lemma decode_ascii_bytes: "decode_ascii (ascii_bytes s) = s"
  by (induction s) (simp_all add: decode_ascii_def ascii_bytes_def unat_of_nat)

lemma example_text:
  "stream_text example_platform (map ascii_bytes chunks) = concat chunks"
  by (induction chunks) (simp_all add: stream_text_def example_platform_def decode_ascii_bytes)

lemma parse_example_simps:
  "JSON_parse example_platform metadata_line = Some metadata_record"
  "JSON_parse example_platform frame_line = Some frame_record"
  "JSON_parse example_platform error_line = Some error_record"
  "JSON_parse example_platform complete_line = Some complete_record"
  "JSON_parse example_platform broken_line = None"
  "JSON_parse example_platform frame_line_11 = Some frame_record_11"
  by (simp_all add: example_platform_def parse_example_def short_metadata_line_def
        metadata_line_def frame_line_def error_line_def complete_line_def broken_line_def
        frame_line_11_def)

lemma line_record_example:
  "line_record example_platform metadata_line = Some metadata_record"
  "line_record example_platform frame_line = Some frame_record"
  "line_record example_platform error_line = Some error_record"
  "line_record example_platform complete_line = Some complete_record"
  "line_record example_platform frame_line_11 = Some frame_record_11"
  by (simp_all add: line_record_def parse_example_simps)
     (simp_all add: trim_def is_white_def metadata_line_def frame_line_def error_line_def
        complete_line_def frame_line_11_def)

lemma complete_lines_Cons:
  "CHR 0x0A \<notin> set l \<Longrightarrow> complete_lines (l @ CHR 0x0A # rest) = l # complete_lines rest"
  by (induction l) (auto simp: complete_lines_def split_nl_not_Nil split: list.splits)

lemma complete_lines_Nil: "complete_lines [] = []"
  by (simp add: complete_lines_def)

lemma example_no_newline:
  "CHR 0x0A \<notin> set metadata_line" "CHR 0x0A \<notin> set frame_line" "CHR 0x0A \<notin> set error_line"
  "CHR 0x0A \<notin> set broken_line" "CHR 0x0A \<notin> set complete_line"
  "CHR 0x0A \<notin> set frame_line_11" "CHR 0x0A \<notin> set short_metadata_line"
  by (simp_all add: metadata_line_def frame_line_def error_line_def broken_line_def
        complete_line_def frame_line_11_def short_metadata_line_def)

lemma startStreamingDetection_Done:
  "startStreamingDetection plat md (Streams reads Done) s =
     for_lines plat md (complete_lines (stream_text plat reads))
       (s\<lparr>isProcessing := True, error := None, allFrames := [],
          currentFrame := None, progress := Fin 0\<rparr>)"
  by (simp add: startStreamingDetection_def processStream_loop_start)

text \<open>
  The complete lines of the text written for a list of lines are those lines, whatever
  has been started after them.
\<close>

lemma complete_lines_lines_text:
  assumes "\<forall>l \<in> set ls. CHR 0x0A \<notin> set l" and "CHR 0x0A \<notin> set rest"
  shows "complete_lines (lines_text ls rest) = ls"
  using assms
proof (induction ls)
  case Nil
  then have "split_nl rest = [rest]" by (induction rest) auto
  then show ?case by (simp add: lines_text_def complete_lines_def)
next
  case (Cons l ls)
  then have "complete_lines (l @ CHR 0x0A # lines_text ls rest) =
      l # complete_lines (lines_text ls rest)"
    by (simp add: complete_lines_Cons)
  with Cons show ?case by (simp add: lines_text_def)
qed

lemma for_lines_foldl:
  "for_lines plat md ls s =
     foldl (\<lambda>s1 l. case line_record plat l of
                      None \<Rightarrow> s1
                    | Some d \<Rightarrow> handle_record plat md d s1) s ls"
  by (induction ls arbitrary: s) (simp_all add: process_line_record)

text \<open>
  Reassembly. When the pieces the reads decode to join to the text of the lines \<open>ls\<close>
  and the start \<open>rest\<close> of a next line, wherever the reads cut it, the loop has dispatched
  each line of \<open>ls\<close> once, in order, and nothing of \<open>rest\<close>: the state is that of
  parsing every line that is not blank and dispatching the record, one line after the
  other, and the frame results among the records have been appended once each.
\<close>

theorem processStream_dispatches_each_line_once:
  assumes "stream_text plat reads = lines_text ls rest"
    and "\<forall>l \<in> set ls. CHR 0x0A \<notin> set l"
    and "CHR 0x0A \<notin> set rest"
  shows "processStream_loop plat md [] reads s =
           foldl (\<lambda>s1 l. case line_record plat l of
                            None \<Rightarrow> s1
                          | Some d \<Rightarrow> handle_record plat md d s1) s ls \<and>
         allFrames (processStream_loop plat md [] reads s) =
           allFrames s @ filter is_frame_result (List.map_filter (line_record plat) ls)"
proof -
  have ls: "complete_lines (stream_text plat reads) = ls"
    unfolding assms(1) using assms(2,3) by (rule complete_lines_lines_text)
  have run: "processStream_loop plat md [] reads s = for_lines plat md ls s"
    unfolding processStream_loop_start ls ..
  show ?thesis
    unfolding run
    by (simp add: for_lines_foldl [symmetric] for_lines_allFrames frame_results_def)
qed

text \<open>
  The example the specification gives: after the read of \<^verbatim>\<open>{"type":"meta\<close> nothing has been dispatched;
  after the read of the rest of the line the one metadata record with fps 30 has.
\<close>

theorem processStream_dispatches_each_line_once_witness:
  "stream_text example_platform [ascii_bytes ''{\"type\":\"meta''] =
     lines_text [] ''{\"type\":\"meta'' \<and>
   processStream_loop example_platform None [] [ascii_bytes ''{\"type\":\"meta''] initial_view =
     initial_view \<and>
   stream_text example_platform
     [ascii_bytes ''{\"type\":\"meta'', ascii_bytes (''data\",\"fps\":30}'' @ [CHR 0x0A])] =
     lines_text [''{\"type\":\"metadata\",\"fps\":30}''] [] \<and>
   line_record example_platform ''{\"type\":\"metadata\",\"fps\":30}'' =
     Some (JObj [(''type'', JStr ''metadata''), (''fps'', JNum 30)]) \<and>
   processStream_loop example_platform None []
     [ascii_bytes ''{\"type\":\"meta'', ascii_bytes (''data\",\"fps\":30}'' @ [CHR 0x0A])]
     initial_view =
     initial_view\<lparr>metadata := Some (JObj [(''type'', JStr ''metadata''), (''fps'', JNum 30)])\<rparr>"
proof -
  let ?c1 = "''{\"type\":\"meta''"
  let ?c2 = "''data\",\"fps\":30}'' @ [CHR 0x0A]"
  have t1: "stream_text example_platform [ascii_bytes ?c1] = lines_text [] ?c1"
    using example_text [of "[?c1]"] by (simp add: lines_text_def)
  have t2: "stream_text example_platform [ascii_bytes ?c1, ascii_bytes ?c2] =
      lines_text [short_metadata_line] []"
    using example_text [of "[?c1, ?c2]"] by (simp add: lines_text_def short_metadata_line_def)
  have n1: "\<forall>l \<in> set ([]::string list). CHR 0x0A \<notin> set l" by simp
  have n2: "CHR 0x0A \<notin> set ?c1" by simp
  have n3: "\<forall>l \<in> set [short_metadata_line]. CHR 0x0A \<notin> set l"
    by (simp add: example_no_newline)
  have n4: "CHR 0x0A \<notin> set ([]::string)" by simp
  have rec: "line_record example_platform short_metadata_line = Some short_metadata_record"
    by (simp add: line_record_def example_platform_def parse_example_def
          short_metadata_line_def metadata_line_def frame_line_def error_line_def
          trim_def is_white_def)
  have h: "handle_record example_platform None short_metadata_record initial_view =
      initial_view\<lparr>metadata := Some short_metadata_record\<rparr>"
    by (simp add: handle_record_def short_metadata_record_def)
  from processStream_dispatches_each_line_once [OF t1 n1 n2, of None initial_view]
  have r1: "processStream_loop example_platform None [] [ascii_bytes ?c1] initial_view =
      initial_view" by simp
  from processStream_dispatches_each_line_once [OF t2 n3 n4, of None initial_view]
  have r2: "processStream_loop example_platform None [] [ascii_bytes ?c1, ascii_bytes ?c2]
      initial_view = initial_view\<lparr>metadata := Some short_metadata_record\<rparr>"
    by (simp add: rec h)
  show ?thesis
    using t1 t2 rec r1 r2
    by (simp only: short_metadata_line_def short_metadata_record_def simp_thms)
qed

section \<open>Progress\<close>

text \<open>
  With the \<^verbatim>\<open>metadata\<close> of the closure null, no record computes a progress: it
  stays what it was until a \<^verbatim>\<open>complete\<close> record sets it to 100.
\<close>

lemma for_lines_progress_no_metadata:
  "progress (for_lines plat None ls s) = progress s \<or> progress (for_lines plat None ls s) = Fin 100"
proof (induction ls arbitrary: s)
  case Nil
  show ?case by simp
next
  case (Cons l ls)
  have "progress (process_line plat None l s) = progress s \<or>
        progress (process_line plat None l s) = Fin 100"
    by (auto simp: process_line_def handle_record_def Let_def split: option.splits)
  then show ?case using Cons.IH [of "process_line plat None l s"] by auto
qed

text \<open>
  C2: on a component that has just been mounted, a stream of a metadata record with
  frame count 100 and then a frame result with frame number 10 stores both, and the
  progress is still 0: the test \<^verbatim>\<open>if (metadata)\<close> reads the null of the closure, not the
  record that \<^verbatim>\<open>setMetadata\<close> has just stored.
\<close>

theorem progress_not_computed_after_metadata:
  "metadata (handleCanPlay_mounted example_platform
      (Streams [ascii_bytes (metadata_line @ CHR 0x0A # frame_line @ [CHR 0x0A])] Done)
      initial_view) = Some metadata_record \<and>
   currentFrame (handleCanPlay_mounted example_platform
      (Streams [ascii_bytes (metadata_line @ CHR 0x0A # frame_line @ [CHR 0x0A])] Done)
      initial_view) = Some frame_record \<and>
   progress (handleCanPlay_mounted example_platform
      (Streams [ascii_bytes (metadata_line @ CHR 0x0A # frame_line @ [CHR 0x0A])] Done)
      initial_view) = Fin 0"
proof -
  have st: "stream_text example_platform
      [ascii_bytes (metadata_line @ CHR 0x0A # frame_line @ [CHR 0x0A])] =
      metadata_line @ CHR 0x0A # frame_line @ [CHR 0x0A]"
    using example_text [of "[metadata_line @ CHR 0x0A # frame_line @ [CHR 0x0A]]"] by simp
  have ls: "complete_lines (metadata_line @ CHR 0x0A # frame_line @ [CHR 0x0A]) =
      [metadata_line, frame_line]"
    by (simp add: complete_lines_Cons example_no_newline complete_lines_Nil)
  show ?thesis
    unfolding handleCanPlay_mounted_def startStreamingDetection_Done st ls
    by (simp add: process_line_record line_record_example handle_record_def initial_view_def
          metadata_record_def frame_record_def)
qed

section \<open>Error records and malformed lines\<close>







lemma example_streams:
  "complete_lines (stream_text example_platform
      [ascii_bytes (error_line @ [CHR 0x0A]), ascii_bytes (frame_line @ [CHR 0x0A])]) =
      [error_line, frame_line]"
  "complete_lines (stream_text example_platform [ascii_bytes (frame_line @ [CHR 0x0A])]) =
      [frame_line]"
  "complete_lines (stream_text example_platform
      [ascii_bytes (metadata_line @ [CHR 0x0A]), ascii_bytes (broken_line @ [CHR 0x0A]),
       ascii_bytes (frame_line @ [CHR 0x0A])]) = [metadata_line, broken_line, frame_line]"
  "complete_lines (stream_text example_platform
      [ascii_bytes (metadata_line @ [CHR 0x0A]), ascii_bytes (frame_line @ [CHR 0x0A])]) =
      [metadata_line, frame_line]"
proof -
  show "complete_lines (stream_text example_platform
      [ascii_bytes (error_line @ [CHR 0x0A]), ascii_bytes (frame_line @ [CHR 0x0A])]) =
      [error_line, frame_line]"
    using example_text [of "[error_line @ [CHR 0x0A], frame_line @ [CHR 0x0A]]"]
    by (simp add: complete_lines_Cons example_no_newline complete_lines_Nil)
  show "complete_lines (stream_text example_platform [ascii_bytes (frame_line @ [CHR 0x0A])]) =
      [frame_line]"
    using example_text [of "[frame_line @ [CHR 0x0A]]"]
    by (simp add: complete_lines_Cons example_no_newline complete_lines_Nil)
  show "complete_lines (stream_text example_platform
      [ascii_bytes (metadata_line @ [CHR 0x0A]), ascii_bytes (broken_line @ [CHR 0x0A]),
       ascii_bytes (frame_line @ [CHR 0x0A])]) = [metadata_line, broken_line, frame_line]"
    using example_text [of "[metadata_line @ [CHR 0x0A], broken_line @ [CHR 0x0A],
       frame_line @ [CHR 0x0A]]"]
    by (simp add: complete_lines_Cons example_no_newline complete_lines_Nil)
  show "complete_lines (stream_text example_platform
      [ascii_bytes (metadata_line @ [CHR 0x0A]), ascii_bytes (frame_line @ [CHR 0x0A])]) =
      [metadata_line, frame_line]"
    using example_text [of "[metadata_line @ [CHR 0x0A], frame_line @ [CHR 0x0A]]"]
    by (simp add: complete_lines_Cons example_no_newline complete_lines_Nil)
qed


text \<open>
  C4: a line that \<^verbatim>\<open>JSON.parse\<close> rejects changes no state cell and does not end the loop:
  a stream with the line \<open>bad\<close> among its complete lines leaves the state that the stream
  without it leaves, which is the state of dispatching the lines before and after it.
\<close>

theorem malformed_line_skipped:
  assumes "JSON_parse plat bad = None"
    and "complete_lines (stream_text plat reads) = pre @ bad # post"
    and "complete_lines (stream_text plat reads') = pre @ post"
  shows "process_line plat md bad s = s \<and>
         processStream_loop plat md [] reads s = processStream_loop plat md [] reads' s \<and>
         processStream_loop plat md [] reads s =
           for_lines plat md post (for_lines plat md pre s)"
proof -
  have skip: "process_line plat md bad s' = s'" for s'
    using assms(1) by (simp add: process_line_def)
  have "processStream_loop plat md [] reads s =
      for_lines plat md post (for_lines plat md pre s)"
    unfolding processStream_loop_start assms(2)
    using for_lines_append [of plat md pre "bad # post" s] by (simp add: skip)
  moreover have "processStream_loop plat md [] reads' s =
      for_lines plat md post (for_lines plat md pre s)"
    unfolding processStream_loop_start assms(3) by (rule for_lines_append)
  ultimately show ?thesis using skip by simp
qed

theorem malformed_line_skipped_witness:
  "JSON_parse example_platform broken_line = None \<and>
   processStream_loop example_platform None []
      [ascii_bytes (metadata_line @ [CHR 0x0A]), ascii_bytes (broken_line @ [CHR 0x0A]),
       ascii_bytes (frame_line @ [CHR 0x0A])] initial_view =
   processStream_loop example_platform None []
      [ascii_bytes (metadata_line @ [CHR 0x0A]), ascii_bytes (frame_line @ [CHR 0x0A])]
      initial_view \<and>
   allFrames (processStream_loop example_platform None []
      [ascii_bytes (metadata_line @ [CHR 0x0A]), ascii_bytes (broken_line @ [CHR 0x0A]),
       ascii_bytes (frame_line @ [CHR 0x0A])] initial_view) = [frame_record]"
proof -
  have h2: "complete_lines (stream_text example_platform
      [ascii_bytes (metadata_line @ [CHR 0x0A]), ascii_bytes (broken_line @ [CHR 0x0A]),
       ascii_bytes (frame_line @ [CHR 0x0A])]) = [metadata_line] @ broken_line # [frame_line]"
    by (simp add: example_streams)
  have h3: "complete_lines (stream_text example_platform
      [ascii_bytes (metadata_line @ [CHR 0x0A]), ascii_bytes (frame_line @ [CHR 0x0A])]) =
      [metadata_line] @ [frame_line]"
    by (simp add: example_streams)
  have run: "allFrames (for_lines example_platform None [frame_line]
      (for_lines example_platform None [metadata_line] initial_view)) = [frame_record]"
    by (simp add: process_line_record line_record_example handle_record_def initial_view_def
          metadata_record_def frame_record_def)
  note inst = malformed_line_skipped [OF parse_example_simps(5) h2 h3, of None initial_view]
  from inst have same: "processStream_loop example_platform None []
      [ascii_bytes (metadata_line @ [CHR 0x0A]), ascii_bytes (broken_line @ [CHR 0x0A]),
       ascii_bytes (frame_line @ [CHR 0x0A])] initial_view =
    processStream_loop example_platform None []
      [ascii_bytes (metadata_line @ [CHR 0x0A]), ascii_bytes (frame_line @ [CHR 0x0A])]
      initial_view"
    by blast
  from inst have "processStream_loop example_platform None []
      [ascii_bytes (metadata_line @ [CHR 0x0A]), ascii_bytes (broken_line @ [CHR 0x0A]),
       ascii_bytes (frame_line @ [CHR 0x0A])] initial_view =
    for_lines example_platform None [frame_line]
      (for_lines example_platform None [metadata_line] initial_view)"
    by blast
  then have "allFrames (processStream_loop example_platform None []
      [ascii_bytes (metadata_line @ [CHR 0x0A]), ascii_bytes (broken_line @ [CHR 0x0A]),
       ascii_bytes (frame_line @ [CHR 0x0A])] initial_view) = [frame_record]"
    using run by (simp only:)
  with parse_example_simps(5) same show ?thesis by blast
qed

section \<open>Frames, completion and the order of the dispatch\<close>












text \<open>
  C6: a record of type \<^verbatim>\<open>complete\<close> sets the progress to 100 and clears the processing
  flag, and changes nothing else.
\<close>

theorem complete_record_ends_processing:
  assumes "line_record plat line = Some data"
    and "js_prop data ''type'' = Some (JStr ''complete'')"
  shows "handle_record plat md data s = s\<lparr>isProcessing := False, progress := Fin 100\<rparr> \<and>
         process_line plat md line s = s\<lparr>isProcessing := False, progress := Fin 100\<rparr> \<and>
         progress (process_line plat md line s) = Fin 100 \<and>
         \<not> isProcessing (process_line plat md line s)"
proof -
  have "data \<noteq> JNull" using assms(2) by auto
  then have "handle_record plat md data s = s\<lparr>isProcessing := False, progress := Fin 100\<rparr>"
    using assms(2) by (simp add: handle_record_def)
  then show ?thesis using assms(1) by (simp add: process_line_record)
qed

theorem complete_record_ends_processing_witness:
  "line_record example_platform complete_line = Some complete_record \<and>
   js_prop complete_record ''type'' = Some (JStr ''complete'') \<and>
   process_line example_platform (Some metadata_record) complete_line
     (initial_view\<lparr>isProcessing := True, progress := Fin 10\<rparr>) =
   initial_view\<lparr>isProcessing := False, progress := Fin 100\<rparr>"
proof -
  have h1: "line_record example_platform complete_line = Some complete_record"
    by (rule line_record_example)
  have h2: "js_prop complete_record ''type'' = Some (JStr ''complete'')"
    by (simp add: complete_record_def)
  show ?thesis
    using complete_record_ends_processing [OF h1 h2, of "Some metadata_record"
        "initial_view\<lparr>isProcessing := True, progress := Fin 10\<rparr>"] h1 h2
    by (simp add: initial_view_def)
qed



section \<open>The upload handler\<close>

text \<open>
  C10: for a chosen file, when the request fails or the body of the response has no
  \<^verbatim>\<open>video_id\<close> (no body, a null body or a body without that field), both identifiers
  keep their values and an upload error is set; and on every outcome \<^verbatim>\<open>isUploading\<close> is
  false when the handler is done.
\<close>

theorem handleFileUpload_failure_keeps_ids:
  "((outcome = AxiosRejects \<or>
      (\<exists>body. outcome = AxiosResolves body \<and> opt_chain body ''video_id'' = None)) \<longrightarrow>
      videoId (handleFileUpload (Some f) outcome s) = videoId s \<and>
      uploadedVideoId (handleFileUpload (Some f) outcome s) = uploadedVideoId s \<and>
      uploadError (handleFileUpload (Some f) outcome s) \<noteq> None) \<and>
   \<not> isUploading (handleFileUpload (Some f) outcome s)"
  by (cases outcome) (auto simp: handleFileUpload_def Let_def split: option.splits)

theorem handleFileUpload_failure_keeps_ids_witness:
  "opt_chain (Some (JObj [(''status'', JStr ''ok'')])) ''video_id'' = None \<and>
   handleFileUpload (Some ()) (AxiosResolves (Some (JObj [(''status'', JStr ''ok'')])))
     \<lparr>videoId = JStr ''v1'', uploadedVideoId = JStr ''v1'', isUploading = False,
      uploadError = None\<rparr> =
     \<lparr>videoId = JStr ''v1'', uploadedVideoId = JStr ''v1'', isUploading = False,
      uploadError = Some ''Upload successful but no video ID was returned''\<rparr> \<and>
   videoId (handleFileUpload (Some ()) AxiosRejects
     \<lparr>videoId = JStr ''v1'', uploadedVideoId = JStr ''v1'', isUploading = False,
      uploadError = None\<rparr>) = JStr ''v1'' \<and>
   uploadError (handleFileUpload (Some ()) AxiosRejects
     \<lparr>videoId = JStr ''v1'', uploadedVideoId = JStr ''v1'', isUploading = False,
      uploadError = None\<rparr>) \<noteq> None \<and>
   \<not> isUploading (handleFileUpload (Some ()) (AxiosResolves (Some (JObj [(''video_id'', JStr ''v2'')])))
     \<lparr>videoId = JStr ''v1'', uploadedVideoId = JStr ''v1'', isUploading = False,
      uploadError = None\<rparr>)"
proof -
  let ?s = "\<lparr>videoId = JStr ''v1'', uploadedVideoId = JStr ''v1'', isUploading = False,
      uploadError = None\<rparr>"
  have h: "opt_chain (Some (JObj [(''status'', JStr ''ok'')])) ''video_id'' = None" by simp
  have full: "handleFileUpload (Some ()) (AxiosResolves (Some (JObj [(''status'', JStr ''ok'')]))) ?s =
     \<lparr>videoId = JStr ''v1'', uploadedVideoId = JStr ''v1'', isUploading = False,
      uploadError = Some ''Upload successful but no video ID was returned''\<rparr>"
    by (simp add: handleFileUpload_def)
  show ?thesis
    using
      handleFileUpload_failure_keeps_ids [of AxiosRejects "()" ?s]
      handleFileUpload_failure_keeps_ids
        [of "AxiosResolves (Some (JObj [(''video_id'', JStr ''v2'')]))" "()" ?s]
      handleFileUpload_failure_keeps_ids
        [of "AxiosResolves (Some (JObj [(''status'', JStr ''ok'')]))" "()" ?s]
      h full
    by simp
qed

text \<open>Without a file the handler returns before it sets anything.\<close>

lemma handleFileUpload_no_file: "handleFileUpload None outcome s = s"
  by (simp add: handleFileUpload_def)

section \<open>Normalised detections\<close>

lemma format_all_nth:
  "format_all rnd now i ds = Some fs \<Longrightarrow>
     length fs = length ds \<and>
     (\<forall>j < length ds. format_detection (rnd (i + j)) (now (i + j)) (ds ! j) = Some (fs ! j))"
proof (induction ds arbitrary: i fs)
  case Nil
  then show ?case by simp
next
  case (Cons d ds)
  from Cons.prems obtain f fs' where
    f: "format_detection (rnd i) (now i) d = Some f" and
    fs': "format_all rnd now (Suc i) ds = Some fs'" and
    fs: "fs = f # fs'"
    by (auto split: option.splits)
  from Cons.IH [OF fs'] have len: "length fs' = length ds"
    and nth: "\<And>j. j < length ds \<Longrightarrow>
      format_detection (rnd (Suc i + j)) (now (Suc i + j)) (ds ! j) = Some (fs' ! j)"
    by auto
  show ?case
  proof (intro conjI allI impI)
    show "length fs = length (d # ds)" using fs len by simp
  next
    fix j assume "j < length (d # ds)"
    then show "format_detection (rnd (i + j)) (now (i + j)) ((d # ds) ! j) = Some (fs ! j)"
      using f fs nth [of "j - 1"] by (cases j) auto
  qed
qed

lemma processUploadedVideo_success:
  assumes "processUploadedVideo rnd now (DetectOk (Some result)) s = (s1, None)"
    and "js_prop result ''detections'' = Some (JArr ds)"
  shows "format_all rnd now 0 ds = Some (detections s1)"
  using assms
  by (auto simp: processUploadedVideo_def alert_error_def alert_none_def
        split: if_splits option.splits)

lemma js_or_cases:
  "js_or None d = d"
  "js_or (Some v) d = (if truthy (Some v) then v else d)"
  by simp_all

text \<open>
  C7, amended: after a successful batch detection every raw detection has its normalised
  record at the same index. A label, a severity or a box field that is absent or falsy
  (null, false, 0, the empty string) is replaced by its default (\<^verbatim>\<open>'Unknown'\<close>,
  \<^verbatim>\<open>'medium'\<close>, 0); one that is truthy is copied. Without a \<^verbatim>\<open>bounding_box\<close> all four
  box fields are 0.
\<close>

theorem formatted_detection_defaults:
  assumes "processUploadedVideo rnd now (DetectOk (Some result)) s = (s1, None)"
    and "js_prop result ''detections'' = Some (JArr ds)"
    and "j < length ds"
  shows "length (detections s1) = length ds \<and>
    (js_prop (ds ! j) ''label'' = None \<longrightarrow> label (detections s1 ! j) = JStr ''Unknown'') \<and>
    (\<forall>v. js_prop (ds ! j) ''label'' = Some v \<longrightarrow>
       label (detections s1 ! j) = (if truthy (Some v) then v else JStr ''Unknown'')) \<and>
    (js_prop (ds ! j) ''severity'' = None \<longrightarrow> severity (detections s1 ! j) = JStr ''medium'') \<and>
    (\<forall>v. js_prop (ds ! j) ''severity'' = Some v \<longrightarrow>
       severity (detections s1 ! j) = (if truthy (Some v) then v else JStr ''medium'')) \<and>
    (js_prop (ds ! j) ''bounding_box'' = None \<longrightarrow>
       boundingBox (detections s1 ! j) =
         \<lparr>box_x = JNum 0, box_y = JNum 0, box_width = JNum 0, box_height = JNum 0\<rparr>) \<and>
    (\<forall>bb v. js_prop (ds ! j) ''bounding_box'' = Some bb \<longrightarrow>
       (opt_chain (Some bb) ''x'' = None \<longrightarrow> box_x (boundingBox (detections s1 ! j)) = JNum 0) \<and>
       (opt_chain (Some bb) ''x'' = Some v \<longrightarrow>
          box_x (boundingBox (detections s1 ! j)) = (if truthy (Some v) then v else JNum 0)) \<and>
       (opt_chain (Some bb) ''y'' = None \<longrightarrow> box_y (boundingBox (detections s1 ! j)) = JNum 0) \<and>
       (opt_chain (Some bb) ''y'' = Some v \<longrightarrow>
          box_y (boundingBox (detections s1 ! j)) = (if truthy (Some v) then v else JNum 0)) \<and>
       (opt_chain (Some bb) ''width'' = None \<longrightarrow>
          box_width (boundingBox (detections s1 ! j)) = JNum 0) \<and>
       (opt_chain (Some bb) ''width'' = Some v \<longrightarrow>
          box_width (boundingBox (detections s1 ! j)) = (if truthy (Some v) then v else JNum 0)) \<and>
       (opt_chain (Some bb) ''height'' = None \<longrightarrow>
          box_height (boundingBox (detections s1 ! j)) = JNum 0) \<and>
       (opt_chain (Some bb) ''height'' = Some v \<longrightarrow>
          box_height (boundingBox (detections s1 ! j)) = (if truthy (Some v) then v else JNum 0)))"
proof -
  note all = format_all_nth [OF processUploadedVideo_success [OF assms(1) assms(2)]]
  from all have len: "length (detections s1) = length ds" by simp
  from all assms(3) have
    "format_detection (rnd (0 + j)) (now (0 + j)) (ds ! j) = Some (detections s1 ! j)"
    by blast
  then have f: "detections s1 ! j =
      \<lparr>det_id = js_or (js_prop (ds ! j) ''id'') (JStr (rnd j)),
       label = js_or (js_prop (ds ! j) ''label'') (JStr ''Unknown''),
       confidence = js_or (js_prop (ds ! j) ''confidence'') (JNum 0),
       boundingBox =
         \<lparr>box_x = js_or (opt_chain (js_prop (ds ! j) ''bounding_box'') ''x'') (JNum 0),
          box_y = js_or (opt_chain (js_prop (ds ! j) ''bounding_box'') ''y'') (JNum 0),
          box_width = js_or (opt_chain (js_prop (ds ! j) ''bounding_box'') ''width'') (JNum 0),
          box_height = js_or (opt_chain (js_prop (ds ! j) ''bounding_box'') ''height'') (JNum 0)\<rparr>,
       severity = js_or (js_prop (ds ! j) ''severity'') (JStr ''medium''),
       timestamp = js_or (js_prop (ds ! j) ''timestamp'') (JStr (now j)),
       frame_number = js_prop (ds ! j) ''frame_number'',
       fps = js_prop (ds ! j) ''fps''\<rparr>"
    by (simp add: format_detection_def split: if_splits)
  show ?thesis
    unfolding f using len
    by (simp del: js_or.simps opt_chain.simps add: js_or_cases opt_chain.simps(1))
qed

text \<open>
  Against C7 as it is stated: a label that is present and empty is not copied; the
  normalised label is the default.
\<close>

theorem present_falsy_field_counterexample:
  "js_prop (JObj [(''label'', JStr ''''), (''severity'', JStr ''high'')]) ''label'' =
     Some (JStr '''') \<and>
   map label (detections (fst (processUploadedVideo (\<lambda>i. ''0.5'') (\<lambda>i. ''2024-01-01T00:00:00.000Z'')
     (DetectOk (Some (JObj [(''detections'',
        JArr [JObj [(''label'', JStr ''''), (''severity'', JStr ''high'')]])])))
     \<lparr>detections = [], hasProcessedVideo = False\<rparr>))) = [JStr ''Unknown'']"
  by (simp add: processUploadedVideo_def format_detection_def)

theorem formatted_detection_defaults_witness:
  "js_prop (JObj [(''detections'', JArr [JObj [(''label'', JStr ''person''),
        (''bounding_box'', JObj [(''x'', JNum 5), (''y'', JNum 0)])]])]) ''detections'' =
     Some (JArr [JObj [(''label'', JStr ''person''),
        (''bounding_box'', JObj [(''x'', JNum 5), (''y'', JNum 0)])]]) \<and>
   (0::nat) < length [JObj [(''label'', JStr ''person''),
        (''bounding_box'', JObj [(''x'', JNum 5), (''y'', JNum 0)])]] \<and>
   snd (processUploadedVideo (\<lambda>i. ''0.5'') (\<lambda>i. ''2024-01-01T00:00:00.000Z'')
     (DetectOk (Some (JObj [(''detections'', JArr [JObj [(''label'', JStr ''person''),
        (''bounding_box'', JObj [(''x'', JNum 5), (''y'', JNum 0)])]])])))
     \<lparr>detections = [], hasProcessedVideo = False\<rparr>) = None \<and>
   map label (detections (fst (processUploadedVideo (\<lambda>i. ''0.5'') (\<lambda>i. ''2024-01-01T00:00:00.000Z'')
     (DetectOk (Some (JObj [(''detections'', JArr [JObj [(''label'', JStr ''person''),
        (''bounding_box'', JObj [(''x'', JNum 5), (''y'', JNum 0)])]])])))
     \<lparr>detections = [], hasProcessedVideo = False\<rparr>))) = [JStr ''person''] \<and>
   map severity (detections (fst (processUploadedVideo (\<lambda>i. ''0.5'') (\<lambda>i. ''2024-01-01T00:00:00.000Z'')
     (DetectOk (Some (JObj [(''detections'', JArr [JObj [(''label'', JStr ''person''),
        (''bounding_box'', JObj [(''x'', JNum 5), (''y'', JNum 0)])]])])))
     \<lparr>detections = [], hasProcessedVideo = False\<rparr>))) = [JStr ''medium''] \<and>
   map boundingBox (detections (fst (processUploadedVideo (\<lambda>i. ''0.5'') (\<lambda>i. ''2024-01-01T00:00:00.000Z'')
     (DetectOk (Some (JObj [(''detections'', JArr [JObj [(''label'', JStr ''person''),
        (''bounding_box'', JObj [(''x'', JNum 5), (''y'', JNum 0)])]])])))
     \<lparr>detections = [], hasProcessedVideo = False\<rparr>))) =
     [\<lparr>box_x = JNum 5, box_y = JNum 0, box_width = JNum 0, box_height = JNum 0\<rparr>]"
proof -
  let ?d = "JObj [(''label'', JStr ''person''),
        (''bounding_box'', JObj [(''x'', JNum 5), (''y'', JNum 0)])]"
  let ?result = "JObj [(''detections'', JArr [?d])]"
  let ?run = "processUploadedVideo (\<lambda>i. ''0.5'') (\<lambda>i. ''2024-01-01T00:00:00.000Z'')
     (DetectOk (Some ?result)) \<lparr>detections = [], hasProcessedVideo = False\<rparr>"
  have ok: "snd ?run = None"
    by (simp add: processUploadedVideo_def format_detection_def)
  then have h1: "?run = (fst ?run, None)"
    by (metis prod.collapse)
  have h2: "js_prop ?result ''detections'' = Some (JArr [?d])" by simp
  have h3: "(0::nat) < length [?d]" by simp
  note inst = formatted_detection_defaults [OF h1 h2 h3]
  have one: "length (detections (fst ?run)) = 1"
    using inst by simp
  then obtain f where fs: "detections (fst ?run) = [f]"
    by (cases "detections (fst ?run)") auto
  have lab: "label f = JStr ''person''"
    using inst unfolding fs by simp
  have sev: "severity f = JStr ''medium''"
    using inst unfolding fs by simp
  have bx: "box_x (boundingBox f) = JNum 5" "box_y (boundingBox f) = JNum 0"
    "box_width (boundingBox f) = JNum 0" "box_height (boundingBox f) = JNum 0"
    using inst unfolding fs by simp_all
  have bb: "boundingBox f = \<lparr>box_x = JNum 5, box_y = JNum 0, box_width = JNum 0, box_height = JNum 0\<rparr>"
    using bx by (cases "boundingBox f") simp
  show ?thesis
    unfolding fs using ok h2 lab sev bb by simp
qed

section \<open>Alerts\<close>

text \<open>
  Against C8 as it is stated: in the panel that \<^verbatim>\<open>home.tsx\<close> renders, the first alert
  has status new and shows the button; after the acknowledge action the list is what it
  was, the first alert still new.
\<close>

theorem acknowledge_keeps_status_counterexample:
  "status (hd (defaultAlerts 0)) = New \<and>
   hd (defaultAlerts 0) \<in> set (panel_alerts 0 (home_AlertPanel ())) \<and>
   AcknowledgeButton \<in> set (AlertItem_buttons (hd (defaultAlerts 0))) \<and>
   map status (fst (acknowledge 0 home_AlertPanel (hd (defaultAlerts 0)) ())) =
     [New, Acknowledged, New, New, Resolved, Acknowledged]"
  by (simp add: acknowledge_def home_AlertPanel_def panel_alerts_def defaultAlerts_def
        AlertItem_click_def AlertItem_buttons_def panel_onAcknowledge_def Let_def)

text \<open>
  C8, amended: the acknowledge button is there for an alert with status new and for no
  other, and without the button there is no action. The action is the call of
  \<^verbatim>\<open>onAcknowledge\<close> with the alert's id and nothing more: the panel shows the alerts
  its properties carry and changes none. With no property passed, as in \<^verbatim>\<open>home.tsx\<close>,
  the callback does nothing and the list is the mock data, before and after: no alert
  changes, the acknowledged one included.
\<close>

theorem acknowledge_only_calls_back:
  assumes "status a = New"
  shows "AcknowledgeButton \<in> set (AlertItem_buttons a) \<and>
         (AcknowledgeButton \<in> set (AlertItem_buttons b) \<longleftrightarrow> status b = New) \<and>
         (status b \<noteq> New \<longrightarrow> AlertItem_click p b AcknowledgeButton w = w) \<and>
         AlertItem_click p a AcknowledgeButton w = panel_onAcknowledge p (alert_id a) w \<and>
         snd (acknowledge t0 render a w) = panel_onAcknowledge (render w) (alert_id a) w \<and>
         fst (acknowledge t0 render a w) =
           panel_alerts t0 (render (panel_onAcknowledge (render w) (alert_id a) w)) \<and>
         panel_onAcknowledge (home_AlertPanel w) (alert_id a) w = w \<and>
         acknowledge t0 home_AlertPanel a w = (defaultAlerts t0, w) \<and>
         panel_alerts t0 (home_AlertPanel w) = defaultAlerts t0"
  using assms
  by (simp add: acknowledge_def AlertItem_click_def AlertItem_buttons_def Let_def
        panel_onAcknowledge_def home_AlertPanel_def panel_alerts_def)

theorem acknowledge_only_calls_back_witness:
  "status (hd (defaultAlerts 0)) = New \<and>
   AcknowledgeButton \<in> set (AlertItem_buttons (hd (defaultAlerts 0))) \<and>
   status (defaultAlerts 0 ! 1) = Acknowledged \<and>
   AcknowledgeButton \<notin> set (AlertItem_buttons (defaultAlerts 0 ! 1)) \<and>
   acknowledge 0 home_AlertPanel (hd (defaultAlerts 0)) () = (defaultAlerts 0, ()) \<and>
   snd (acknowledge 0
     (\<lambda>w. \<lparr>alerts = Some (defaultAlerts 0), onAcknowledge = Some (\<lambda>alertId w. alertId # w),
            onResolve = None, onViewDetails = None\<rparr>)
     (hd (defaultAlerts 0)) []) = [''1'']"
proof -
  have h: "status (hd (defaultAlerts 0)) = New"
    by (simp add: defaultAlerts_def)
  have i: "alert_id (hd (defaultAlerts 0)) = ''1''"
    by (simp add: defaultAlerts_def)
  have k: "status (defaultAlerts 0 ! 1) = Acknowledged"
    by (simp add: defaultAlerts_def)
  note home = acknowledge_only_calls_back [OF h, where b = "defaultAlerts 0 ! 1"
        and p = "home_AlertPanel ()" and w = "()" and ?t0.0 = 0 and render = home_AlertPanel]
  note other = acknowledge_only_calls_back [OF h, where b = "defaultAlerts 0 ! 1"
        and p = "home_AlertPanel []" and w = "[]" and ?t0.0 = 0 and render =
        "\<lambda>w. \<lparr>alerts = Some (defaultAlerts 0), onAcknowledge = Some (\<lambda>alertId w. alertId # w),
            onResolve = None, onViewDetails = None\<rparr>"]
  from home have b1: "AcknowledgeButton \<in> set (AlertItem_buttons (hd (defaultAlerts 0)))"
    by blast
  from home k have b2: "AcknowledgeButton \<notin> set (AlertItem_buttons (defaultAlerts 0 ! 1))"
    by simp
  from home have b3: "acknowledge 0 home_AlertPanel (hd (defaultAlerts 0)) () = (defaultAlerts 0, ())"
    by blast
  from other i have b4: "snd (acknowledge 0
     (\<lambda>w. \<lparr>alerts = Some (defaultAlerts 0), onAcknowledge = Some (\<lambda>alertId w. alertId # w),
            onResolve = None, onViewDetails = None\<rparr>)
     (hd (defaultAlerts 0)) []) = [''1'']"
    by (simp add: panel_onAcknowledge_def)
  from h b1 k b2 b3 b4 show ?thesis by blast
qed

end
